theory Spec2Isabelle
  imports Main "HOL-Library.Word"
begin

unbundle bit_operations_syntax

section \<open>The bit vector of contrib/ais.py\<close>

text \<open>
  \<^verbatim>\<open>class BitVector\<close> keeps an \<^verbatim>\<open>array('B')\<close> of unsigned bytes and a logical
  length in bits. Offsets and widths are the non-negative integers the instruction
  tables and the driver supply, so they are natural numbers here; the integers that
  the extraction computes are Python's unbounded integers.
\<close>

record BitVector =
  bits :: "8 word list"
  bitlen :: nat

text \<open>
  A decoded value: an integer (\<^verbatim>\<open>'unsigned'\<close>, \<^verbatim>\<open>'signed'\<close>), a
  text (\<^verbatim>\<open>'string'\<close>) or a bit vector (\<^verbatim>\<open>'raw'\<close>).
\<close>

datatype pyvalue = IntV int | StrV string | RawV BitVector

text \<open>
  The exceptions the modelled code can raise. \<^verbatim>\<open>AISUnpackingException\<close> is the
  class of the source, with its two attributes; the others are Python's own.
\<close>

datatype py_error =
    IndexError
  | KeyError
  | TypeError
  | ValueError
  | UnboundLocalError
  | AISUnpackingException string pyvalue

subsection \<open>Unsigned and signed extraction\<close>

text \<open>
  The loop of \<^verbatim>\<open>ubits\<close>: \<^verbatim>\<open>fld <<= 8; fld |= self.bits[i]\<close> for each byte
  index of the range. Reading \<^verbatim>\<open>self.bits[i]\<close> beyond the array raises IndexError.
\<close>

fun ubits_loop :: "8 word list \<Rightarrow> nat list \<Rightarrow> int \<Rightarrow> py_error + int" where
  "ubits_loop bs [] fld = Inr fld"
| "ubits_loop bs (i # rest) fld =
     (if i < length bs then ubits_loop bs rest (push_bit 8 fld OR uint (bs ! i))
      else Inl IndexError)"

definition ubits :: "BitVector \<Rightarrow> nat \<Rightarrow> nat \<Rightarrow> py_error + int" where
  "ubits self start w =
     (case ubits_loop (bits self) [start div 8 ..< (start + w + 8 - 1) div 8] 0 of
        Inl e \<Rightarrow> Inl e
      | Inr fld \<Rightarrow>
          (let endbits = (start + w) mod 8;
               fld1 = (if endbits \<noteq> 0 then drop_bit (8 - endbits) fld else fld)
           in Inr (fld1 AND NOT (push_bit w (- 1)))))"

text \<open>
  \<^verbatim>\<open>sbits\<close>: the test \<^verbatim>\<open>fld & (1 << (width-1))\<close> raises ValueError (negative
  shift count) when the width is 0.
\<close>

definition sbits :: "BitVector \<Rightarrow> nat \<Rightarrow> nat \<Rightarrow> py_error + int" where
  "sbits self start w =
     (case ubits self start w of
        Inl e \<Rightarrow> Inl e
      | Inr fld \<Rightarrow>
          if w = 0 then Inl ValueError
          else if fld AND push_bit (w - 1) 1 \<noteq> 0 then Inr (- (2 ^ w - fld))
          else Inr fld)"

subsection \<open>The buffer as a sequence of bits\<close>

text \<open>
  The reference reading of a buffer: byte \<open>k\<close> holds the bits \<open>8k .. 8k+7\<close>, most
  significant first, and a bit sequence denotes a big-endian number.
\<close>

definition byte_bits :: "8 word \<Rightarrow> bool list" where
  "byte_bits b = map (bit b) [7, 6, 5, 4, 3, 2, 1, 0]"

definition bitlist :: "8 word list \<Rightarrow> bool list" where
  "bitlist bs = concat (map byte_bits bs)"

fun bl_to_int :: "bool list \<Rightarrow> int" where
  "bl_to_int [] = 0"
| "bl_to_int (b # rest) = (if b then 2 ^ length rest else 0) + bl_to_int rest"

definition getbit :: "BitVector \<Rightarrow> nat \<Rightarrow> bool" where
  "getbit self k = bit (bits self ! (k div 8)) (7 - k mod 8)"

section \<open>The pseudo-instructions and their interpreter\<close>

text \<open>
  \<^verbatim>\<open>BitVector.__init__(data=None, length=None)\<close>: without data the vector is
  empty; with data the length defaults to eight bits per byte.
\<close>

definition BitVector_init :: "8 word list option \<Rightarrow> nat option \<Rightarrow> BitVector" where
  "BitVector_init data len =
     (case data of
        None \<Rightarrow> \<lparr>bits = [], bitlen = 0\<rparr>
      | Some d \<Rightarrow>
          \<lparr>bits = d, bitlen = (case len of None \<Rightarrow> length d * 8 | Some l \<Rightarrow> l)\<rparr>)"

text \<open>
  A formatter is either a tuple of legends or one of the hook functions, which is named
  here by its Python name: the unpacker only carries it through.
\<close>

datatype formatter = Legends "string list" | Hook string

text \<open>
  \<^verbatim>\<open>class bitfield\<close>. The data type is kept as the string the tables give (some
  tables misspell it), the validator is a predicate on the decoded value.
\<close>

record bitfield =
  name :: string
  width :: nat
  type :: string
  oob :: "int option"
  legend :: string
  validator :: "(pyvalue \<Rightarrow> bool) option"
  formatter :: "formatter option"

text \<open>
  The three instruction classes. A dispatch holds the name of the field to dispatch on,
  the list of sub-tables (an entry may be \<^verbatim>\<open>None\<close>) and the function applied to
  the field's value before indexing.
\<close>

datatype instruction =
    Spare nat
  | Dispatch string "instruction list option list" "pyvalue \<Rightarrow> pyvalue"
  | Bitfield bitfield

text \<open>One unpacked tuple: name, value, type, legend, formatter.\<close>

type_synonym cooked_field = "string \<times> pyvalue \<times> string \<times> string \<times> formatter option"

text \<open>Python list indexing by an integer: negative indices count from the end.\<close>

definition py_index :: "'a list \<Rightarrow> int \<Rightarrow> py_error + 'a" where
  "py_index xs i =
     (if 0 \<le> i \<and> i < int (length xs) then Inr (xs ! nat i)
      else if i < 0 \<and> - int (length xs) \<le> i then Inr (xs ! nat (i + int (length xs)))
      else Inl IndexError)"

text \<open>The six-bit text alphabet used by the \<^verbatim>\<open>'string'\<close> fields (64 characters).\<close>

definition sixbit_alphabet :: string where
  "sixbit_alphabet =
     ''@ABCDEFGHIJKLMNOPQRSTUVWXYZ['' @ [char_of (92::nat)] @ '']^- !'' @ [char_of (34::nat)]
       @ ''#$%&'' @ [char_of (96::nat)] @ ''()*+,-./0123456789:;<=>?''"

text \<open>
  The loop of the \<^verbatim>\<open>'string'\<close> branch:
  \<^verbatim>\<open>for i in range(inst.width/6): value += alphabet[data.ubits(offset + 6*i, 6)]\<close>.
\<close>

fun string_loop :: "BitVector \<Rightarrow> nat \<Rightarrow> nat list \<Rightarrow> string \<Rightarrow> py_error + string" where
  "string_loop data off [] acc = Inr acc"
| "string_loop data off (i # rest) acc =
     (case ubits data (off + 6 * i) 6 of
        Inl e \<Rightarrow> Inl e
      | Inr k \<Rightarrow>
          (case py_index sixbit_alphabet k of
             Inl e \<Rightarrow> Inl e
           | Inr c \<Rightarrow> string_loop data off rest (acc @ [c])))"

text \<open>\<^verbatim>\<open>value.replace("@", " ").rstrip()\<close>\<close>

definition py_isspace :: "char \<Rightarrow> bool" where
  "py_isspace c = (of_char c \<in> {9, 10, 11, 12, 13, 32 :: nat})"

definition replace_at :: "string \<Rightarrow> string" where
  "replace_at s = map (\<lambda>c. if c = CHR ''@'' then CHR '' '' else c) s"

definition rstrip :: "string \<Rightarrow> string" where
  "rstrip s = rev (dropWhile py_isspace (rev s))"

text \<open>
  The \<^verbatim>\<open>if/elif\<close> chain on \<^verbatim>\<open>inst.type\<close>. The local variable
  \<^verbatim>\<open>value\<close> is assigned only in the four branches; with any other type string it
  keeps what an earlier iteration of the same call left in it, so the result is the new
  content of that variable (\<open>None\<close> while it is unbound).
\<close>

definition field_value ::
  "BitVector \<Rightarrow> nat \<Rightarrow> bitfield \<Rightarrow> pyvalue option \<Rightarrow> py_error + pyvalue option" where
  "field_value data off f val =
     (if type f = ''unsigned'' then
        (case ubits data off (width f) of Inl e \<Rightarrow> Inl e | Inr n \<Rightarrow> Inr (Some (IntV n)))
      else if type f = ''signed'' then
        (case sbits data off (width f) of Inl e \<Rightarrow> Inl e | Inr n \<Rightarrow> Inr (Some (IntV n)))
      else if type f = ''string'' then
        (case string_loop data off [0 ..< width f div 6] [] of
           Inl e \<Rightarrow> Inl e
         | Inr s \<Rightarrow> Inr (Some (StrV (rstrip (replace_at s)))))
      else if type f = ''raw'' then
        Inr (Some (RawV (BitVector_init (Some (drop (off div 8) (bits data)))
                                        (Some (bitlen data - off)))))
      else Inr val)"

text \<open>
  The loop of \<^verbatim>\<open>aivdm_unpack\<close>. Its frame holds the locals \<^verbatim>\<open>offset\<close>,
  \<^verbatim>\<open>value\<close> and \<^verbatim>\<open>cooked\<close> together with the dictionary
  \<^verbatim>\<open>values\<close>, which the caller shares with every recursive call and which is
  therefore threaded through. \<^verbatim>\<open>break\<close> leaves the loop with the frame as it is.
  In the dispatch branch the recursive call starts at the current offset with fresh locals;
  only its list of tuples comes back (\<^verbatim>\<open>cooked += aivdm_unpack(...)\<close>), and the
  caller's \<^verbatim>\<open>offset\<close> is not assigned. Iterating over a \<^verbatim>\<open>None\<close>
  sub-table raises TypeError.
\<close>

type_synonym frame = "nat \<times> (string \<rightharpoonup> pyvalue) \<times> pyvalue option \<times> cooked_field list"

function unpack_loop :: "BitVector \<Rightarrow> instruction list \<Rightarrow> frame \<Rightarrow> py_error + frame" where
  "unpack_loop data [] fr = Inr fr"
| "unpack_loop data (inst # rest) (off, vals, val, cooked) =
     (if off \<ge> bitlen data then Inr (off, vals, val, cooked)
      else
        (case inst of
           Spare w \<Rightarrow> unpack_loop data rest (off + w, vals, val, cooked)
         | Dispatch fieldname subtypes compute \<Rightarrow>
             (case vals fieldname of
                None \<Rightarrow> Inl KeyError
              | Some v \<Rightarrow>
                  (case compute v of
                     IntV i \<Rightarrow>
                       (case py_index subtypes i of
                          Inl e \<Rightarrow> Inl e
                        | Inr None \<Rightarrow> Inl TypeError
                        | Inr (Some sub) \<Rightarrow>
                            (case unpack_loop data sub (off, vals, None, []) of
                               Inl e \<Rightarrow> Inl e
                             | Inr (off', vals', val', sub_cooked) \<Rightarrow>
                                 unpack_loop data rest (off, vals', val, cooked @ sub_cooked)))
                   | _ \<Rightarrow> Inl TypeError))
         | Bitfield f \<Rightarrow>
             (case field_value data off f val of
                Inl e \<Rightarrow> Inl e
              | Inr None \<Rightarrow> Inl UnboundLocalError
              | Inr (Some v) \<Rightarrow>
                  (if (case validator f of None \<Rightarrow> False | Some p \<Rightarrow> \<not> p v)
                   then Inl (AISUnpackingException (name f) v)
                   else unpack_loop data rest
                          (off + width f, vals(name f \<mapsto> v), Some v,
                           cooked @ [(name f, v, type f, legend f, formatter f)])))))"
  by pat_completeness auto


termination unpack_loop
proof (relation "measure (\<lambda>(data, insts, fr). size_list size insts)", goal_cases)
  case 1
  show ?case by simp
next
  case 2
  then show ?case by simp
next
  case (3 data inst rest off vals val cooked fieldname subtypes compute v i x sub)
  from 3 have "\<exists>j. j < length subtypes \<and> subtypes ! j = Some sub"
  proof (cases "i < 0")
    case True
    with 3 have "nat (i + int (length subtypes)) < length subtypes"
        "subtypes ! nat (i + int (length subtypes)) = Some sub"
      by (auto simp: py_index_def split: if_splits)
    then show ?thesis by blast
  next
    case False
    with 3 have "nat i < length subtypes" "subtypes ! nat i = Some sub"
      by (auto simp: py_index_def split: if_splits)
    then show ?thesis by blast
  qed
  then have "Some sub \<in> set subtypes"
    by (auto simp: in_set_conv_nth)
  then have "size_list size sub < size_list (size_option (size_list size)) subtypes"
    by (rule size_list_estimation) simp
  with 3 show ?case by simp
next
  case 4
  then show ?case by simp
next
  case 5
  then show ?case by simp
qed

text \<open>
  \<^verbatim>\<open>aivdm_unpack(data, offset, values, instructions)\<close> runs the loop on fresh locals
  and returns the list \<^verbatim>\<open>cooked\<close>, and nothing else.
\<close>

definition aivdm_unpack ::
  "BitVector \<Rightarrow> nat \<Rightarrow> (string \<rightharpoonup> pyvalue) \<Rightarrow> instruction list
     \<Rightarrow> py_error + cooked_field list" where
  "aivdm_unpack data offset values instructions =
     (case unpack_loop data instructions (offset, values, None, []) of
        Inl e \<Rightarrow> Inl e
      | Inr (off', vals', val', cooked) \<Rightarrow> Inr cooked)"

subsection \<open>Six-bit armoring\<close>

text \<open>
  \<^verbatim>\<open>ch = ord(ch) - 48; if ch > 40: ch -= 8\<close>. A Python 2 string holds bytes, as
  \<^typ>\<open>char\<close> does.
\<close>

definition armor_value :: "char \<Rightarrow> int" where
  "armor_value c = (let ch = int (of_char c) - 48 in if ch > 40 then ch - 8 else ch)"

text \<open>
  The inner loop \<^verbatim>\<open>for i in (5, 4, 3, 2, 1, 0)\<close>: a set bit of the code is written
  into the byte that holds the position \<^verbatim>\<open>self.bitlen\<close>, then the length grows by
  one. The test \<^verbatim>\<open>(ch >> i) & 0x01\<close> is on an unbounded integer, negative ones in
  two's complement.
\<close>

fun sixbit_bits :: "BitVector \<Rightarrow> int \<Rightarrow> nat list \<Rightarrow> py_error + BitVector" where
  "sixbit_bits self ch [] = Inr self"
| "sixbit_bits self ch (i # rest) =
     (if drop_bit i ch AND 1 \<noteq> 0 then
        (if bitlen self div 8 < length (bits self) then
           sixbit_bits
             (self\<lparr>bits := (bits self)[bitlen self div 8 :=
                         bits self ! (bitlen self div 8) OR push_bit (7 - bitlen self mod 8) 1],
                    bitlen := bitlen self + 1\<rparr>) ch rest
         else Inl IndexError)
      else sixbit_bits (self\<lparr>bitlen := bitlen self + 1\<rparr>) ch rest)"

fun sixbit_chars :: "BitVector \<Rightarrow> string \<Rightarrow> py_error + BitVector" where
  "sixbit_chars self [] = Inr self"
| "sixbit_chars self (c # rest) =
     (case sixbit_bits self (armor_value c) [5, 4, 3, 2, 1, 0] of
        Inl e \<Rightarrow> Inl e
      | Inr self' \<Rightarrow> sixbit_chars self' rest)"

definition from_sixbit :: "BitVector \<Rightarrow> string \<Rightarrow> py_error + BitVector" where
  "from_sixbit self data =
     sixbit_chars (self\<lparr>bits := bits self @ replicate (length data) 0\<rparr>) data"


section \<open>The instruction tables\<close>

text \<open>\<^verbatim>\<open>bitfield(name, width, dtype, oob, legend, validator=None, formatter=None)\<close>\<close>

definition bitfield_init ::
  "string \<Rightarrow> nat \<Rightarrow> string \<Rightarrow> int option \<Rightarrow> string \<Rightarrow> (pyvalue \<Rightarrow> bool) option
     \<Rightarrow> formatter option \<Rightarrow> bitfield" where
  "bitfield_init n w dtype o_o_b l v f =
     \<lparr>name = n, width = w, type = dtype, oob = o_o_b, legend = l, validator = v,
      formatter = f\<rparr>"

text \<open>
  The three validators of the tables. They are attached to integer fields; on a text or
  a bit vector Python 2 orders any number below the value, so the upper bound fails.
\<close>

definition validate_0_8 :: "pyvalue \<Rightarrow> bool" where
  "validate_0_8 v = (case v of IntV n \<Rightarrow> n \<ge> 0 \<and> n \<le> 8 | _ \<Rightarrow> False)"

definition validate_0_99 :: "pyvalue \<Rightarrow> bool" where
  "validate_0_99 v = (case v of IntV n \<Rightarrow> n \<ge> 0 \<and> n \<le> 99 | _ \<Rightarrow> False)"

definition validate_msgtype :: "pyvalue \<Rightarrow> bool" where
  "validate_msgtype v = (case v of IntV n \<Rightarrow> n > 0 \<and> n \<le> 24 \<and> n \<noteq> 23 | _ \<Rightarrow> False)"

text \<open>
  The decimal digits of a natural number, for the \<^verbatim>\<open>repr\<close> in the dispatch of
  type 24 part B: \<^verbatim>\<open>lambda m: 1 if `m`[:2]=='98' else 0\<close>. The \<^verbatim>\<open>repr\<close> of a
  Python 2 long ends in \<^verbatim>\<open>L\<close>, which never makes or breaks a leading \<^verbatim>\<open>98\<close>;
  the \<^verbatim>\<open>repr\<close> of a text starts with a quote; that of a bit vector is its length,
  a colon and the bytes in hexadecimal.
\<close>

fun dec_nat :: "nat \<Rightarrow> string" where
  "dec_nat n =
     (if n < 10 then [char_of (48 + n)] else dec_nat (n div 10) @ [char_of (48 + n mod 10)])"

definition repr_int :: "int \<Rightarrow> string" where
  "repr_int n = (if n < 0 then CHR ''-'' # dec_nat (nat (- n)) else dec_nat (nat n))"

definition type24b_compute :: "pyvalue \<Rightarrow> pyvalue" where
  "type24b_compute m =
     (case m of
        IntV n \<Rightarrow> IntV (if take 2 (repr_int n) = ''98'' then 1 else 0)
      | StrV s \<Rightarrow> IntV 0
      | RawV b \<Rightarrow> IntV (if take 2 (dec_nat (bitlen b) @ '':'') = ''98'' then 1 else 0))"


definition cnb_status_legends :: "string list" where
  "cnb_status_legends =
    [''Under way using engine'',
     ''At anchor'',
     ''Not under command'',
     ''Restricted manoeuverability'',
     ''Constrained by her draught'',
     ''Moored'',
     ''Aground'',
     ''Engaged in fishing'',
     ''Under way sailing'',
     ''Reserved for HSC'',
     ''Reserved for WIG'',
     ''Reserved'',
     ''Reserved'',
     ''Reserved'',
     ''Reserved'',
     ''Not defined'']"

definition cnb :: "instruction list" where
  "cnb =
    [Bitfield (bitfield_init ''status'' 4 ''unsigned'' (Some 0) ''Navigation Status'' None (Some (Legends cnb_status_legends))),
     Bitfield (bitfield_init ''turn'' 8 ''signed'' (Some (- 128)) ''Rate of Turn'' None (Some (Hook ''cnb_rot_format''))),
     Bitfield (bitfield_init ''speed'' 10 ''unsigned'' (Some 1023) ''Speed Over Ground'' None (Some (Hook ''cnb_speed_format''))),
     Bitfield (bitfield_init ''accuracy'' 1 ''unsigned'' None ''Position Accuracy'' None None),
     Bitfield (bitfield_init ''lon'' 28 ''signed'' (Some 108600000) ''Longitude'' None (Some (Hook ''cnb_latlon_format''))),
     Bitfield (bitfield_init ''lat'' 27 ''signed'' (Some 54600000) ''Latitude'' None (Some (Hook ''cnb_latlon_format''))),
     Bitfield (bitfield_init ''course'' 12 ''unsigned'' (Some 3600) ''Course Over Ground'' None (Some (Hook ''cnb_course_format''))),
     Bitfield (bitfield_init ''heading'' 9 ''unsigned'' (Some 511) ''True Heading'' None None),
     Bitfield (bitfield_init ''second'' 6 ''unsigned'' None ''Time Stamp'' None (Some (Hook ''cnb_second_format''))),
     Bitfield (bitfield_init ''maneuver'' 2 ''unsigned'' None ''Maneuver Indicator'' None None),
     Spare 3,
     Bitfield (bitfield_init ''raim'' 1 ''unsigned'' None ''RAIM flag'' None None),
     Bitfield (bitfield_init ''radio'' 19 ''unsigned'' None ''Radio status'' None None)]"

definition epfd_type_legends :: "string list" where
  "epfd_type_legends =
    [''Undefined'',
     ''GPS'',
     ''GLONASS'',
     ''Combined GPS/GLONASS'',
     ''Loran-C'',
     ''Chayka'',
     ''Integrated navigation system'',
     ''Surveyed'',
     ''Galileo'']"

definition type4 :: "instruction list" where
  "type4 =
    [Bitfield (bitfield_init ''year'' 14 ''unsigned'' (Some 0) ''Year'' None None),
     Bitfield (bitfield_init ''month'' 4 ''unsigned'' (Some 0) ''Month'' None None),
     Bitfield (bitfield_init ''day'' 5 ''unsigned'' (Some 0) ''Day'' None None),
     Bitfield (bitfield_init ''hour'' 5 ''unsigned'' (Some 24) ''Hour'' None None),
     Bitfield (bitfield_init ''minute'' 6 ''unsigned'' (Some 60) ''Minute'' None None),
     Bitfield (bitfield_init ''second'' 6 ''unsigned'' (Some 60) ''Second'' None None),
     Bitfield (bitfield_init ''accuracy'' 1 ''unsigned'' None ''Fix quality'' None None),
     Bitfield (bitfield_init ''lon'' 28 ''signed'' (Some 108600000) ''Longitude'' None (Some (Hook ''cnb_latlon_format''))),
     Bitfield (bitfield_init ''lat'' 27 ''signed'' (Some 54600000) ''Latitude'' None (Some (Hook ''cnb_latlon_format''))),
     Bitfield (bitfield_init ''epfd'' 4 ''unsigned'' None ''Type of EPFD'' (Some validate_0_8) (Some (Legends epfd_type_legends))),
     Spare 10,
     Bitfield (bitfield_init ''raim'' 1 ''unsigned'' None ''RAIM flag '' None None),
     Bitfield (bitfield_init ''radio'' 19 ''unsigned'' None ''SOTDMA state'' None None)]"

definition ship_type_legends :: "string list" where
  "ship_type_legends =
    [''Not available'',
     ''Reserved for future use'',
     ''Reserved for future use'',
     ''Reserved for future use'',
     ''Reserved for future use'',
     ''Reserved for future use'',
     ''Reserved for future use'',
     ''Reserved for future use'',
     ''Reserved for future use'',
     ''Reserved for future use'',
     ''Reserved for future use'',
     ''Reserved for future use'',
     ''Reserved for future use'',
     ''Reserved for future use'',
     ''Reserved for future use'',
     ''Reserved for future use'',
     ''Reserved for future use'',
     ''Reserved for future use'',
     ''Reserved for future use'',
     ''Reserved for future use'',
     ''Wing in ground (WIG) - all ships of this type'',
     ''Wing in ground (WIG) - Hazardous category A'',
     ''Wing in ground (WIG) - Hazardous category B'',
     ''Wing in ground (WIG) - Hazardous category C'',
     ''Wing in ground (WIG) - Hazardous category D'',
     ''Wing in ground (WIG) - Reserved for future use'',
     ''Wing in ground (WIG) - Reserved for future use'',
     ''Wing in ground (WIG) - Reserved for future use'',
     ''Wing in ground (WIG) - Reserved for future use'',
     ''Wing in ground (WIG) - Reserved for future use'',
     ''Fishing'',
     ''Towing'',
     ''Towing: length exceeds 200m or breadth exceeds 25m'',
     ''Dredging or underwater ops'',
     ''Diving ops'',
     ''Military ops'',
     ''Sailing'',
     ''Pleasure Craft'',
     ''Reserved'',
     ''Reserved'',
     ''High speed craft (HSC) - all ships of this type'',
     ''High speed craft (HSC) - Hazardous category A'',
     ''High speed craft (HSC) - Hazardous category B'',
     ''High speed craft (HSC) - Hazardous category C'',
     ''High speed craft (HSC) - Hazardous category D'',
     ''High speed craft (HSC) - Reserved for future use'',
     ''High speed craft (HSC) - Reserved for future use'',
     ''High speed craft (HSC) - Reserved for future use'',
     ''High speed craft (HSC) - Reserved for future use'',
     ''High speed craft (HSC) - No additional information'',
     ''Pilot Vessel'',
     ''Search and Rescue vessel'',
     ''Tug'',
     ''Port Tender'',
     ''Anti-pollution equipment'',
     ''Law Enforcement'',
     ''Spare - Local Vessel'',
     ''Spare - Local Vessel'',
     ''Medical Transport'',
     ''Ship according to RR Resolution No. 18'',
     ''Passenger - all ships of this type'',
     ''Passenger - Hazardous category A'',
     ''Passenger - Hazardous category B'',
     ''Passenger - Hazardous category C'',
     ''Passenger - Hazardous category D'',
     ''Passenger - Reserved for future use'',
     ''Passenger - Reserved for future use'',
     ''Passenger - Reserved for future use'',
     ''Passenger - Reserved for future use'',
     ''Passenger - No additional information'',
     ''Cargo - all ships of this type'',
     ''Cargo - Hazardous category A'',
     ''Cargo - Hazardous category B'',
     ''Cargo - Hazardous category C'',
     ''Cargo - Hazardous category D'',
     ''Cargo - Reserved for future use'',
     ''Cargo - Reserved for future use'',
     ''Cargo - Reserved for future use'',
     ''Cargo - Reserved for future use'',
     ''Cargo - No additional information'',
     ''Tanker - all ships of this type'',
     ''Tanker - Hazardous category A'',
     ''Tanker - Hazardous category B'',
     ''Tanker - Hazardous category C'',
     ''Tanker - Hazardous category D'',
     ''Tanker - Reserved for future use'',
     ''Tanker - Reserved for future use'',
     ''Tanker - Reserved for future use'',
     ''Tanker - Reserved for future use'',
     ''Tanker - No additional information'',
     ''Other Type - all ships of this type'',
     ''Other Type - Hazardous category A'',
     ''Other Type - Hazardous category B'',
     ''Other Type - Hazardous category C'',
     ''Other Type - Hazardous category D'',
     ''Other Type - Reserved for future use'',
     ''Other Type - Reserved for future use'',
     ''Other Type - Reserved for future use'',
     ''Other Type - Reserved for future use'',
     ''Other Type - no additional information'']"

definition type5 :: "instruction list" where
  "type5 =
    [Bitfield (bitfield_init ''ais_version'' 2 ''unsigned'' None ''AIS Version'' None None),
     Bitfield (bitfield_init ''imo_id'' 30 ''unsigned'' (Some 0) ''IMO Identification Number'' None None),
     Bitfield (bitfield_init ''callsign'' 42 ''string'' None ''Call Sign'' None None),
     Bitfield (bitfield_init ''shipname'' 120 ''string'' None ''Vessel Name'' None None),
     Bitfield (bitfield_init ''shiptype'' 8 ''unsigned'' None ''Ship Type'' (Some validate_0_99) (Some (Legends ship_type_legends))),
     Bitfield (bitfield_init ''to_bow'' 9 ''unsigned'' (Some 0) ''Dimension to Bow'' None None),
     Bitfield (bitfield_init ''to_stern'' 9 ''unsigned'' (Some 0) ''Dimension to Stern'' None None),
     Bitfield (bitfield_init ''to_port'' 6 ''unsigned'' (Some 0) ''Dimension to Port'' None None),
     Bitfield (bitfield_init ''to_starbord'' 6 ''unsigned'' (Some 0) ''Dimension to Starboard'' None None),
     Bitfield (bitfield_init ''epfd'' 4 ''unsigned'' (Some 0) ''Position Fix Type'' (Some validate_0_8) (Some (Legends epfd_type_legends))),
     Bitfield (bitfield_init ''month'' 4 ''unsigned'' (Some 0) ''ETA month'' None None),
     Bitfield (bitfield_init ''day'' 5 ''unsigned'' (Some 0) ''ETA day'' None None),
     Bitfield (bitfield_init ''hour'' 5 ''unsigned'' (Some 24) ''ETA hour'' None None),
     Bitfield (bitfield_init ''minute'' 6 ''unsigned'' (Some 60) ''ETA minute'' None None),
     Bitfield (bitfield_init ''second'' 8 ''unsigned'' (Some 0) ''Draught'' None None),
     Bitfield (bitfield_init ''destination'' 120 ''string'' None ''Destination'' None None),
     Bitfield (bitfield_init ''dte'' 1 ''unsigned'' None ''DTE'' None None),
     Spare 1]"

definition type6 :: "instruction list" where
  "type6 =
    [Bitfield (bitfield_init ''seqno'' 2 ''unsigned'' None ''Sequence Number'' None None),
     Bitfield (bitfield_init ''dest_mmsi'' 30 ''unsigned'' None ''Destination MMSI'' None None),
     Bitfield (bitfield_init ''retransmit'' 1 ''unsigned'' None ''Retransmit flag'' None None),
     Spare 1,
     Bitfield (bitfield_init ''application_id'' 16 ''unsigned'' (Some 0) ''Application ID'' None None),
     Bitfield (bitfield_init ''data'' 920 ''raw'' None ''Data'' None None)]"

definition type7 :: "instruction list" where
  "type7 =
    [Spare 2,
     Bitfield (bitfield_init ''mmsi1'' 30 ''unsigned'' (Some 0) ''MMSI number 1'' None None),
     Spare 2,
     Bitfield (bitfield_init ''mmsi2'' 30 ''unsigned'' (Some 0) ''MMSI number 2'' None None),
     Spare 2,
     Bitfield (bitfield_init ''mmsi3'' 30 ''unsigned'' (Some 0) ''MMSI number 3'' None None),
     Spare 2,
     Bitfield (bitfield_init ''mmsi1'' 30 ''unsigned'' (Some 0) ''MMSI number 4'' None None),
     Spare 2]"

definition type8 :: "instruction list" where
  "type8 =
    [Spare 2,
     Bitfield (bitfield_init ''application_id'' 16 ''unsigned'' (Some 0) ''Application ID'' None None),
     Bitfield (bitfield_init ''data'' 952 ''raw'' None ''Data'' None None)]"

definition type9 :: "instruction list" where
  "type9 =
    [Bitfield (bitfield_init ''alt'' 12 ''unsigned'' (Some 4095) ''Altitude'' None (Some (Hook ''type9_alt_format''))),
     Bitfield (bitfield_init ''speed'' 10 ''unsigned'' (Some 1023) ''SOG'' None (Some (Hook ''type9_speed_format''))),
     Bitfield (bitfield_init ''accuracy'' 1 ''unsigned'' None ''Position Accuracy'' None None),
     Bitfield (bitfield_init ''lon'' 28 ''signed'' (Some 108600000) ''Longitude'' None (Some (Hook ''cnb_latlon_format''))),
     Bitfield (bitfield_init ''lat'' 27 ''signed'' (Some 54600000) ''Latitude'' None (Some (Hook ''cnb_latlon_format''))),
     Bitfield (bitfield_init ''course'' 12 ''unsigned'' (Some 3600) ''Course Over Ground'' None (Some (Hook ''cnb_course_format''))),
     Bitfield (bitfield_init ''second'' 6 ''unsigned'' (Some 60) ''Time Stamp'' None (Some (Hook ''cnb_second_format''))),
     Bitfield (bitfield_init ''regional'' 8 ''unsigned'' None ''Regional reserved'' None None),
     Bitfield (bitfield_init ''dte'' 1 ''unsigned'' None ''DTE'' None None),
     Spare 3,
     Bitfield (bitfield_init ''assigned'' 1 ''unsigned'' None ''Assigned'' None None),
     Bitfield (bitfield_init ''raim'' 1 ''unsigned'' None ''RAIM flag'' None None),
     Bitfield (bitfield_init ''radio'' 20 ''unsigned'' None ''Radio status'' None None)]"

definition type10 :: "instruction list" where
  "type10 =
    [Spare 2,
     Bitfield (bitfield_init ''dest_mmsi'' 30 ''unsigned'' None ''Destination MMSI'' None None),
     Spare 2]"

definition type12 :: "instruction list" where
  "type12 =
    [Bitfield (bitfield_init ''seqno'' 2 ''unsigned'' None ''Sequence Number'' None None),
     Bitfield (bitfield_init ''dest_mmsi'' 30 ''unsigned'' None ''Destination MMSI'' None None),
     Bitfield (bitfield_init ''retransmit'' 1 ''unsigned'' None ''Retransmit flag'' None None),
     Spare 1,
     Bitfield (bitfield_init ''text'' 936 ''string'' None ''Text'' None None)]"

definition type14 :: "instruction list" where
  "type14 =
    [Spare 1,
     Bitfield (bitfield_init ''text'' 968 ''string'' None ''Text'' None None)]"

definition type15 :: "instruction list" where
  "type15 =
    [Spare 2,
     Bitfield (bitfield_init ''mmsi1'' 30 ''unsigned'' (Some 0) ''Interrogated MMSI'' None None),
     Bitfield (bitfield_init ''type1_1'' 6 ''unsigned'' (Some 0) ''First message type'' None None),
     Bitfield (bitfield_init ''offset1_1'' 12 ''unsigned'' (Some 0) ''First slot offset'' None None),
     Spare 2,
     Bitfield (bitfield_init ''type1_2'' 6 ''unsigned'' (Some 0) ''Second message ty'' None None),
     Bitfield (bitfield_init ''offset1_2'' 12 ''unsifned'' (Some 0) ''Second slot offset'' None None),
     Spare 2,
     Bitfield (bitfield_init ''mmsi2'' 30 ''unsigned'' (Some 0) ''Interrogated MMSI'' None None),
     Bitfield (bitfield_init ''type2_1'' 6 ''unsigned'' (Some 0) ''First message type'' None None),
     Bitfield (bitfield_init ''offset2_1'' 12 ''unsifned'' (Some 0) ''First slot offset'' None None),
     Spare 2]"

definition type16 :: "instruction list" where
  "type16 =
    [Spare 2,
     Bitfield (bitfield_init ''mmsi1'' 30 ''unsigned'' (Some 0) ''Interrogated MMSI'' None None),
     Bitfield (bitfield_init ''offset1  '' 12 ''unsigned'' (Some 0) ''First slot offset'' None None),
     Bitfield (bitfield_init ''increment1'' 10 ''unsigned'' (Some 0) ''Slot increment'' None None),
     Spare 2,
     Bitfield (bitfield_init ''mmsi2'' 30 ''unsigned'' (Some 0) ''Interrogated MMSI'' None None),
     Bitfield (bitfield_init ''offset2'' 12 ''unsifned'' (Some 0) ''First slot offset'' None None),
     Bitfield (bitfield_init ''increment2'' 10 ''unsigned'' (Some 0) ''Slot increment'' None None),
     Spare 2]"

definition type17 :: "instruction list" where
  "type17 =
    [Spare 2,
     Bitfield (bitfield_init ''lon'' 18 ''signed'' (Some 108600) ''Longitude'' None (Some (Hook ''short_latlon_format''))),
     Bitfield (bitfield_init ''lat'' 17 ''signed'' (Some 54600) ''Latitude'' None (Some (Hook ''short_latlon_format''))),
     Spare 2,
     Bitfield (bitfield_init ''data'' 736 ''raw'' None ''DGNSS data'' None None)]"

definition type18 :: "instruction list" where
  "type18 =
    [Bitfield (bitfield_init ''reserved'' 8 ''unsigned'' None ''Regional reserved'' None None),
     Bitfield (bitfield_init ''speed'' 10 ''unsigned'' (Some 1023) ''Speed Over Ground'' None (Some (Hook ''cnb_speed_format''))),
     Bitfield (bitfield_init ''accuracy'' 1 ''unsigned'' None ''Position Accuracy'' None None),
     Bitfield (bitfield_init ''lon'' 28 ''signed'' (Some 108600000) ''Longitude'' None (Some (Hook ''cnb_latlon_format''))),
     Bitfield (bitfield_init ''lat'' 27 ''signed'' (Some 54600000) ''Latitude'' None (Some (Hook ''cnb_latlon_format''))),
     Bitfield (bitfield_init ''course'' 12 ''unsigned'' (Some 3600) ''Course Over Ground'' None (Some (Hook ''cnb_course_format''))),
     Bitfield (bitfield_init ''heading'' 9 ''unsigned'' (Some 511) ''True Heading'' None None),
     Bitfield (bitfield_init ''second'' 6 ''unsigned'' None ''Time Stamp'' None (Some (Hook ''cnb_second_format''))),
     Bitfield (bitfield_init ''regional'' 2 ''unsigned'' None ''Regional reserved'' None None),
     Bitfield (bitfield_init ''cs'' 1 ''unsigned'' None ''CS Unit'' None None),
     Bitfield (bitfield_init ''display'' 1 ''unsigned'' None ''Display flag'' None None),
     Bitfield (bitfield_init ''dsc'' 1 ''unsigned'' None ''DSC flag'' None None),
     Bitfield (bitfield_init ''band'' 1 ''unsigned'' None ''Band flag'' None None),
     Bitfield (bitfield_init ''msg22'' 1 ''unsigned'' None ''Message 22 flag'' None None),
     Bitfield (bitfield_init ''assigned'' 1 ''unsigned'' None ''Assigned'' None None),
     Bitfield (bitfield_init ''raim'' 1 ''unsigned'' None ''RAIM flag'' None None),
     Bitfield (bitfield_init ''radio'' 20 ''unsigned'' None ''Radio status'' None None)]"

definition type19 :: "instruction list" where
  "type19 =
    [Bitfield (bitfield_init ''reserved'' 8 ''unsigned'' None ''Regional reserved'' None None),
     Bitfield (bitfield_init ''speed'' 10 ''unsigned'' (Some 1023) ''Speed Over Ground'' None (Some (Hook ''cnb_speed_format''))),
     Bitfield (bitfield_init ''accuracy'' 1 ''unsigned'' None ''Position Accuracy'' None None),
     Bitfield (bitfield_init ''lon'' 28 ''signed'' (Some 108600000) ''Longitude'' None (Some (Hook ''cnb_latlon_format''))),
     Bitfield (bitfield_init ''lat'' 27 ''signed'' (Some 54600000) ''Latitude'' None (Some (Hook ''cnb_latlon_format''))),
     Bitfield (bitfield_init ''course'' 12 ''unsigned'' (Some 3600) ''Course Over Ground'' None (Some (Hook ''cnb_course_format''))),
     Bitfield (bitfield_init ''heading'' 9 ''unsigned'' (Some 511) ''True Heading'' None None),
     Bitfield (bitfield_init ''second'' 6 ''unsigned'' None ''Time Stamp'' None (Some (Hook ''cnb_second_format''))),
     Bitfield (bitfield_init ''regional'' 4 ''unsigned'' None ''Regional reserved'' None None),
     Bitfield (bitfield_init ''shipname'' 120 ''string'' None ''Vessel Name'' None None),
     Bitfield (bitfield_init ''shiptype'' 8 ''unsigned'' None ''Ship Type'' (Some validate_0_99) (Some (Legends ship_type_legends))),
     Bitfield (bitfield_init ''to_bow'' 9 ''unsigned'' (Some 0) ''Dimension to Bow'' None None),
     Bitfield (bitfield_init ''to_stern'' 9 ''unsigned'' (Some 0) ''Dimension to Stern'' None None),
     Bitfield (bitfield_init ''to_port'' 6 ''unsigned'' (Some 0) ''Dimension to Port'' None None),
     Bitfield (bitfield_init ''to_starbord'' 6 ''unsigned'' (Some 0) ''Dimension to Starboard'' None None),
     Bitfield (bitfield_init ''epfd'' 4 ''unsigned'' (Some 0) ''Position Fix Type'' (Some validate_0_8) (Some (Legends epfd_type_legends))),
     Bitfield (bitfield_init ''assigned'' 1 ''unsigned'' None ''Assigned'' None None),
     Bitfield (bitfield_init ''raim'' 1 ''unsigned'' None ''RAIM flag'' None None),
     Bitfield (bitfield_init ''radio'' 20 ''unsigned'' None ''Radio status'' None None)]"

definition type20 :: "instruction list" where
  "type20 =
    [Spare 2,
     Bitfield (bitfield_init ''offset1'' 12 ''unsigned'' (Some 0) ''Offset number'' None None),
     Bitfield (bitfield_init ''number1'' 4 ''unsigned'' (Some 0) ''Reserved slots'' None None),
     Bitfield (bitfield_init ''timeout1'' 3 ''unsigned'' (Some 0) ''Time-out'' None None),
     Bitfield (bitfield_init ''increment1'' 11 ''unsigned'' (Some 0) ''Increment'' None None),
     Bitfield (bitfield_init ''offset2'' 12 ''unsigned'' (Some 0) ''Offset number 2'' None None),
     Bitfield (bitfield_init ''number2'' 4 ''unsigned'' (Some 0) ''Reserved slots'' None None),
     Bitfield (bitfield_init ''timeout2'' 3 ''unsigned'' (Some 0) ''Time-out'' None None),
     Bitfield (bitfield_init ''increment2'' 11 ''unsigned'' (Some 0) ''Increment'' None None),
     Bitfield (bitfield_init ''offset3'' 12 ''unsigned'' (Some 0) ''Offset number 3'' None None),
     Bitfield (bitfield_init ''number3'' 4 ''unsigned'' (Some 0) ''Reserved slots'' None None),
     Bitfield (bitfield_init ''timeout3'' 3 ''unsigned'' (Some 0) ''Time-out'' None None),
     Bitfield (bitfield_init ''increment3'' 11 ''unsigned'' (Some 0) ''Increment'' None None),
     Bitfield (bitfield_init ''offset4'' 12 ''unsigned'' (Some 0) ''Offset number 4'' None None),
     Bitfield (bitfield_init ''number4'' 4 ''unsigned'' (Some 0) ''Reserved slots'' None None),
     Bitfield (bitfield_init ''timeout4'' 3 ''unsigned'' (Some 0) ''Time-out'' None None),
     Bitfield (bitfield_init ''increment4'' 11 ''unsigned'' (Some 0) ''Increment'' None None)]"

definition aide_type_legends :: "string list" where
  "aide_type_legends =
    [''Unspcified'',
     ''Reference point'',
     ''RACON'',
     ''Fixed offshore structure'',
     ''Spare, Reserved for future use.'',
     ''Light, without sectors'',
     ''Light, with sectors'',
     ''Leading Light Front'',
     ''Leading Light Rear'',
     ''Beacon, Cardinal N'',
     ''Beacon, Cardinal E'',
     ''Beacon, Cardinal S'',
     ''Beacon, Cardinal W'',
     ''Beacon, Port hand'',
     ''Beacon, Starboard hand'',
     ''Beacon, Preferred Channel port hand'',
     ''Beacon, Preferred Channel starboard hand'',
     ''Beacon, Isolated danger'',
     ''Beacon, Safe water'',
     ''Beacon, Special mark'',
     ''Cardinal Mark N'',
     ''Cardinal Mark E'',
     ''Cardinal Mark S'',
     ''Cardinal Mark W'',
     ''Port hand Mark'',
     ''Starboard hand Mark'',
     ''Preferred Channel Port hand'',
     ''Preferred Channel Starboard hand'',
     ''Isolated danger'',
     ''Safe Water'',
     ''Special Mark'',
     ''Light Vessel / LANBY / Rigs'']"

definition type21 :: "instruction list" where
  "type21 =
    [Bitfield (bitfield_init ''type'' 5 ''unisigned'' (Some 0) ''Aid type'' None (Some (Legends aide_type_legends))),
     Bitfield (bitfield_init ''name'' 120 ''string'' None ''Name'' None None),
     Bitfield (bitfield_init ''accuracy'' 1 ''unsigned'' (Some 0) ''Position Accuracy'' None None),
     Bitfield (bitfield_init ''lon'' 28 ''signed'' (Some 108600000) ''Longitude'' None (Some (Hook ''cnb_latlon_format''))),
     Bitfield (bitfield_init ''lat'' 27 ''signed'' (Some 54600000) ''Latitude'' None (Some (Hook ''cnb_latlon_format''))),
     Bitfield (bitfield_init ''to_bow'' 9 ''unsigned'' (Some 0) ''Dimension to Bow'' None None),
     Bitfield (bitfield_init ''to_stern'' 9 ''unsigned'' (Some 0) ''Dimension to Stern'' None None),
     Bitfield (bitfield_init ''to_port'' 6 ''unsigned'' (Some 0) ''Dimension to Port'' None None),
     Bitfield (bitfield_init ''to_starboard'' 6 ''unsigned'' (Some 0) ''Dimension to Starboard'' None None),
     Bitfield (bitfield_init ''epfd'' 4 ''unsigned'' (Some 0) ''Position Fix Type'' (Some validate_0_8) (Some (Legends epfd_type_legends))),
     Bitfield (bitfield_init ''second'' 6 ''unsigned'' (Some 0) ''UTC Second'' None None),
     Bitfield (bitfield_init ''off_position'' 1 ''unsigned'' (Some 0) ''Off-Position Indicator'' None None),
     Bitfield (bitfield_init ''regional'' 8 ''unsigned'' (Some 0) ''Regional reserved'' None None),
     Bitfield (bitfield_init ''raim'' 1 ''unsigned'' (Some 0) ''RAIM flag'' None None),
     Bitfield (bitfield_init ''virtual_aid'' 1 ''unsigned'' (Some 0) ''Virtual-aid flag'' None None),
     Bitfield (bitfield_init ''assigned'' 1 ''unsigned'' (Some 0) ''Assigned-mode flag'' None None),
     Spare 2,
     Bitfield (bitfield_init ''name'' 88 ''string'' (Some 0) ''Name Extension'' None None)]"

definition type22 :: "instruction list" where
  "type22 =
    [Spare 2,
     Bitfield (bitfield_init ''channel_a'' 12 ''unsigned'' (Some 0) ''Channel A'' None None),
     Bitfield (bitfield_init ''channel_b'' 12 ''unsigned'' (Some 0) ''Channel B'' None None),
     Bitfield (bitfield_init ''mode'' 4 ''unsigned'' (Some 0) ''Tx/Rx mode'' None None),
     Bitfield (bitfield_init ''power'' 1 ''unsigned'' (Some 0) ''Power'' None None),
     Bitfield (bitfield_init ''ne_lon'' 18 ''unsigned'' (Some 108600) ''NE Longitude'' None (Some (Hook ''short_latlon_format''))),
     Bitfield (bitfield_init ''ne_lat'' 17 ''unsigned'' (Some 54600) ''NE Latitude'' None (Some (Hook ''short_latlon_format''))),
     Bitfield (bitfield_init ''sw_lon'' 18 ''unsigned'' (Some 108600) ''SW Longitude'' None (Some (Hook ''short_latlon_format''))),
     Bitfield (bitfield_init ''sw_lat'' 17 ''unsigned'' (Some 54600) ''SW Latitude'' None (Some (Hook ''short_latlon_format''))),
     Bitfield (bitfield_init ''addressed'' 1 ''unsigned'' (Some 0) ''Addressed'' None None),
     Bitfield (bitfield_init ''band_a'' 1 ''unsigned'' (Some 0) ''Channel A Band'' None None),
     Bitfield (bitfield_init ''band_a'' 1 ''unsigned'' (Some 0) ''Channel A Band'' None None),
     Bitfield (bitfield_init ''zonesize'' 3 ''unsigned'' (Some 0) ''Zone size'' None None),
     Spare 23]"

definition type24a :: "instruction list" where
  "type24a =
    [Bitfield (bitfield_init ''shipname'' 120 ''string'' None ''Vessel Name'' None None),
     Spare 8]"

definition type24b1 :: "instruction list" where
  "type24b1 =
    [Bitfield (bitfield_init ''callsign'' 42 ''string'' None ''Call Sign'' None None),
     Bitfield (bitfield_init ''to_bow'' 9 ''unsigned'' (Some 0) ''Dimension to Bow'' None None),
     Bitfield (bitfield_init ''to_stern'' 9 ''unsigned'' (Some 0) ''Dimension to Stern'' None None),
     Bitfield (bitfield_init ''to_port'' 6 ''unsigned'' (Some 0) ''Dimension to Port'' None None),
     Bitfield (bitfield_init ''to_starbord'' 6 ''unsigned'' (Some 0) ''Dimension to Starboard'' None None),
     Spare 8]"

definition type24b2 :: "instruction list" where
  "type24b2 =
    [Bitfield (bitfield_init ''mothership_mmsi'' 30 ''unsigned'' (Some 0) ''Mothership MMSI'' None None),
     Spare 8]"

definition type24b :: "instruction list" where
  "type24b =
    [Bitfield (bitfield_init ''shiptype'' 8 ''unsigned'' None ''Ship Type'' (Some validate_0_99) (Some (Legends ship_type_legends))),
     Bitfield (bitfield_init ''vendorid'' 42 ''string'' None ''Vendor ID'' None None),
     Dispatch ''mmsi''
       [Some type24b1, Some type24b2]
       type24b_compute]"

definition type24 :: "instruction list" where
  "type24 =
    [Bitfield (bitfield_init ''partno'' 2 ''unsigned'' None ''Part Number'' None None),
     Dispatch ''partno''
       [Some type24a, Some type24b]
       (\<lambda>x. x)]"

definition aivdm_decode :: "instruction list" where
  "aivdm_decode =
    [Bitfield (bitfield_init ''msgtype'' 6 ''unsigned'' (Some 0) ''Message Type'' (Some validate_msgtype) None),
     Bitfield (bitfield_init ''repeat'' 2 ''unsigned'' None ''Repeat Indicator'' None None),
     Bitfield (bitfield_init ''mmsi'' 30 ''unsigned'' (Some 0) ''MMSI'' None None),
     Dispatch ''msgtype''
       [None, Some cnb, Some cnb, Some cnb, Some type4, Some type5,
        Some type6, Some type7, Some type8, Some type9,
        Some type10, Some type4, Some type12, Some type7,
        Some type14, Some type15, Some type16, Some type17,
        Some type18, Some type19, Some type20, Some type21,
        Some type22, None, Some type24]
       (\<lambda>x. x)]"

section \<open>The message stream: fragments and field extensions\<close>


text \<open>
  \<^verbatim>\<open>fragment < expect\<close> compares two Python 2 strings, the pieces of the split line:
  byte by byte, a proper prefix being the smaller.
\<close>

fun py_str_less :: "string \<Rightarrow> string \<Rightarrow> bool" where
  "py_str_less [] [] = False"
| "py_str_less [] (y # ys) = True"
| "py_str_less (x # xs) [] = False"
| "py_str_less (x # xs) (y # ys) =
     (if x = y then py_str_less xs ys else (of_char x :: nat) < of_char y)"



subsection \<open>Field extensions\<close>








section \<open>Reference notions used in the statements\<close>



text \<open>The empty dictionary \<^verbatim>\<open>values = {}\<close> of the driver.\<close>

definition no_values :: "string \<rightharpoonup> pyvalue" where
  "no_values = Map.empty"

text \<open>
  A small table in which a field follows a dispatch, and a buffer of three bytes: the
  first byte selects the sub-table.
\<close>

definition example_field :: "string \<Rightarrow> nat \<Rightarrow> instruction" where
  "example_field n w = Bitfield (bitfield_init n w ''unsigned'' None n None None)"

definition dispatch_then_field :: "instruction list" where
  "dispatch_then_field =
     [example_field ''a'' 8,
      Dispatch ''a'' [None, Some [example_field ''b'' 8]] id,
      example_field ''c'' 8]"

definition three_bytes :: BitVector where
  "three_bytes = \<lparr>bits = [1, 2, 3], bitlen = 24\<rparr>"

text \<open>
  A payload of message type 17 (DGNSS broadcast), 14 armored characters: the first is the
  type, the thirteenth sets bit 72 of the buffer and nothing else.
\<close>

definition type17_payload :: string where
  "type17_payload = ''A00000000000P0''"

definition type17_bits :: BitVector where
  "type17_bits = \<lparr>bits = [68, 0, 0, 0, 0, 0, 0, 0, 0, 128, 0, 0, 0, 0], bitlen = 84\<rparr>"

definition type17_raw :: BitVector where
  "type17_raw = \<lparr>bits = [128, 0, 0, 0, 0], bitlen = 7\<rparr>"

text \<open>The six bits that the armoring appends for a character, most significant first.\<close>

definition sixbit_code :: "char \<Rightarrow> bool list" where
  "sixbit_code c = map (bit (armor_value c)) [5, 4, 3, 2, 1, 0]"




text \<open>
  Two short payloads. The first is a message of type 5 cut after 42 bits, the second a
  message of type 1 cut after 48 bits; \<open>short_type5_bits\<close> and \<open>short_type1_bits\<close>
  are the buffers that the armoring builds from them (one byte per character).
\<close>

definition short_type5_payload :: string where
  "short_type5_payload = ''5000000''"

definition short_type5_bits :: BitVector where
  "short_type5_bits = \<lparr>bits = [20, 0, 0, 0, 0, 0, 0], bitlen = 42\<rparr>"

definition short_type1_payload :: string where
  "short_type1_payload = ''10000000''"

definition short_type1_bits :: BitVector where
  "short_type1_bits = \<lparr>bits = [4, 0, 0, 0, 0, 0, 0, 0], bitlen = 48\<rparr>"


text \<open>The record that the unpacker builds for the short message of type 1.\<close>

definition short_type1_record :: "cooked_field list" where
  "short_type1_record =
     [(''msgtype'', IntV 1, ''unsigned'', ''Message Type'', None),
      (''repeat'', IntV 0, ''unsigned'', ''Repeat Indicator'', None),
      (''mmsi'', IntV 0, ''unsigned'', ''MMSI'', None),
      (''status'', IntV 0, ''unsigned'', ''Navigation Status'', Some (Legends cnb_status_legends)),
      (''turn'', IntV 0, ''signed'', ''Rate of Turn'', Some (Hook ''cnb_rot_format''))]"



section \<open>Properties of the bit vector\<close>

lemma bl_to_int_bounds: "0 \<le> bl_to_int xs \<and> bl_to_int xs < 2 ^ length xs"
  by (induction xs) auto

lemma bl_to_int_append: "bl_to_int (xs @ ys) = bl_to_int xs * 2 ^ length ys + bl_to_int ys"
  by (induction xs) (auto simp: power_add algebra_simps)

lemma length_byte_bits: "length (byte_bits b) = 8"
  by (simp add: byte_bits_def)

lemma upt8: "[0..<8] = [0,1,2,3,4,5,6,7]"
  by (simp add: upt_rec)

lemma bl_to_int_byte: "bl_to_int (byte_bits b) = uint b"
proof -
  have "take_bit 8 (uint b) = uint b"
    using uint_lt2p [of b] by (intro take_bit_int_eq_self) simp_all
  moreover have "take_bit 8 (uint b) = horner_sum of_bool 2 (map (bit (uint b)) [0..<8])"
    by (simp only: horner_sum_bit_eq_take_bit)
  moreover have "horner_sum of_bool 2 (map (bit (uint b)) [0..<8]) = bl_to_int (byte_bits b)"
    by (simp add: upt8 byte_bits_def bit_uint_iff)
  ultimately show ?thesis by simp
qed

lemma length_bitlist: "length (bitlist bs) = 8 * length bs"
  by (induction bs) (simp_all add: bitlist_def length_byte_bits)

lemma bitlist_append: "bitlist (xs @ ys) = bitlist xs @ bitlist ys"
  by (simp add: bitlist_def)

lemma bitlist_Cons: "bitlist (x # xs) = byte_bits x @ bitlist xs"
  by (simp add: bitlist_def)

lemma bitlist_Nil: "bitlist [] = []"
  by (simp add: bitlist_def)

lemma shift_or_byte: "push_bit 8 (fld::int) OR uint (x :: 8 word) = fld * 256 + uint x"
proof -
  have "push_bit 8 fld + uint x = push_bit 8 fld OR uint x"
    by (rule disjunctive_add_eq_or) (auto simp: bit_eq_iff bit_simps dest: bit_imp_le_length)
  then show ?thesis by (simp add: push_bit_eq_mult)
qed

lemma ubits_loop_upt:
  "b \<le> length bs \<Longrightarrow> a \<le> b \<Longrightarrow>
   ubits_loop bs [a..<b] fld =
     Inr (fld * 2 ^ (8 * (b - a)) + bl_to_int (bitlist (take (b - a) (drop a bs))))"
proof (induction "b - a" arbitrary: a fld)
  case 0
  then show ?case by (simp add: bitlist_Nil)
next
  case (Suc n)
  then have ab: "a < b" and n: "n = b - Suc a" and alen: "a < length bs" by simp_all
  have take_eq: "take (b - a) (drop a bs) = bs ! a # take (b - Suc a) (drop (Suc a) bs)"
    using ab alen by (metis Cons_nth_drop_Suc Suc_diff_Suc take_Suc_Cons)
  have len: "length (bitlist (take (b - Suc a) (drop (Suc a) bs))) = 8 * (b - Suc a)"
    using Suc.prems by (simp add: length_bitlist)
  have pw: "(2::int) ^ (8 * (b - a)) = 256 * 2 ^ (8 * (b - Suc a))"
  proof -
    have "8 * (b - a) = 8 + 8 * (b - Suc a)" using ab by simp
    then show ?thesis by (simp add: power_add)
  qed
  have "ubits_loop bs [a..<b] fld = ubits_loop bs [Suc a..<b] (fld * 256 + uint (bs ! a))"
    using ab alen by (simp add: upt_conv_Cons shift_or_byte)
  also have "\<dots> = Inr ((fld * 256 + uint (bs ! a)) * 2 ^ (8 * (b - Suc a))
       + bl_to_int (bitlist (take (b - Suc a) (drop (Suc a) bs))))"
    using Suc.hyps(1) [OF n] Suc.prems ab by simp
  also have "\<dots> = Inr (fld * 2 ^ (8 * (b - a)) + bl_to_int (bitlist (take (b - a) (drop a bs))))"
  proof -
    define P :: int where "P = 2 ^ (8 * (b - Suc a))"
    define R where "R = bl_to_int (bitlist (take (b - Suc a) (drop (Suc a) bs)))"
    have "bl_to_int (bitlist (take (b - a) (drop a bs))) = uint (bs ! a) * P + R"
      by (simp only: take_eq bitlist_Cons bl_to_int_append bl_to_int_byte len P_def R_def)
    moreover have "(2::int) ^ (8 * (b - a)) = 256 * P"
      by (simp only: pw P_def)
    ultimately show ?thesis
      by (simp only: P_def [symmetric] R_def [symmetric]) (simp add: algebra_simps)
  qed
  finally show ?case .
qed

lemma ubits_loop_short:
  "a < b \<Longrightarrow> length bs < b \<Longrightarrow> ubits_loop bs [a..<b] fld = Inl IndexError"
proof (induction "b - a" arbitrary: a fld)
  case 0
  then show ?case by simp
next
  case (Suc n)
  show ?case
  proof (cases "a < length bs")
    case True
    then have "Suc a < b" using Suc.prems by simp
    moreover have "n = b - Suc a" using Suc.hyps(2) by simp
    ultimately show ?thesis using Suc.hyps(1) Suc.prems True
      by (simp add: upt_conv_Cons)
  next
    case False
    then show ?thesis using Suc.prems by (simp add: upt_conv_Cons)
  qed
qed


lemma bitlist_drop: "bitlist (drop a bs) = drop (8 * a) (bitlist bs)"
proof (induction bs arbitrary: a)
  case Nil
  then show ?case by (simp add: bitlist_Nil)
next
  case (Cons x xs)
  show ?case
  proof (cases a)
    case 0
    then show ?thesis by simp
  next
    case (Suc a')
    then show ?thesis using Cons.IH [of a']
      by (simp add: bitlist_Cons length_byte_bits)
  qed
qed

lemma bitlist_take: "bitlist (take n bs) = take (8 * n) (bitlist bs)"
proof (induction bs arbitrary: n)
  case Nil
  then show ?case by (simp add: bitlist_Nil)
next
  case (Cons x xs)
  show ?case
  proof (cases n)
    case 0
    then show ?thesis by (simp add: bitlist_Nil)
  next
    case (Suc n')
    then show ?thesis using Cons.IH [of n']
      by (simp add: bitlist_Cons length_byte_bits)
  qed
qed

lemma take3:
  "take (p + w + k) xs = take p xs @ take w (drop p xs) @ take k (drop (p + w) xs)"
proof -
  have "take (p + w + k) xs = take (p + w) xs @ take k (drop (p + w) xs)"
    by (rule take_add)
  moreover have "take (p + w) xs = take p xs @ take w (drop p xs)"
    by (rule take_add)
  ultimately show ?thesis by simp
qed

lemma and_not_shifted_minus_one: "(x::int) AND NOT (push_bit w (- 1)) = x mod 2 ^ w"
  by (simp add: take_bit_eq_mask [symmetric] take_bit_eq_mod)

lemma bl_to_int_drop_low:
  "length post = k \<Longrightarrow> drop_bit k (bl_to_int (xs @ post)) = bl_to_int xs"
  using bl_to_int_bounds [of post]
  by (simp add: bl_to_int_append drop_bit_eq_div)

lemma bl_to_int_mod_low:
  "length win = w \<Longrightarrow> bl_to_int (pre @ win) mod 2 ^ w = bl_to_int win"
  using bl_to_int_bounds [of win]
  by (simp add: bl_to_int_append)

lemma div8_shift: "(8 * (a::nat) + m + 7) div 8 = a + (m + 7) div 8"
  by simp

lemma ceil8_small: "(r::nat) < 8 \<Longrightarrow> (r + 7) div 8 = (if r = 0 then 0 else 1)"
  by (simp add: div_nat_eqI)

lemma ceil8: "8 * (((m::nat) + 7) div 8) = m + (if m mod 8 = 0 then 0 else 8 - m mod 8)"
proof -
  define q r where "q = m div 8" and "r = m mod 8"
  have m: "m = 8 * q + r" and r: "r < 8" by (simp_all add: q_def r_def)
  have "(m + 7) div 8 = q + (r + 7) div 8"
    unfolding m by simp
  then have "(m + 7) div 8 = q + (if r = 0 then 0 else 1)"
    using ceil8_small [OF r] by simp
  then show ?thesis using r unfolding r_def [symmetric] by (simp add: m)
qed

lemma ubits_reference:
  assumes inside: "start + w \<le> 8 * length (bits self)"
  shows "ubits self start w = Inr (bl_to_int (take w (drop start (bitlist (bits self)))))"
proof -
  define bs where "bs = bits self"
  define L where "L = bitlist bs"
  define a where "a = start div 8"
  define b where "b = (start + w + 8 - 1) div 8"
  define p where "p = start mod 8"
  define e where "e = (start + w) mod 8"
  define k where "k = (if e = 0 then 0 else 8 - e)"
  have start: "start = 8 * a + p" by (simp add: a_def p_def)
  have e_eq: "e = (p + w) mod 8"
    by (simp add: e_def start add.assoc)
  have b_eq: "b = a + (p + w + 7) div 8"
    using div8_shift [of a "p + w"] by (simp add: b_def start add.assoc)
  have total: "8 * (b - a) = p + w + k"
    using ceil8 [of "p + w"] by (simp add: b_eq k_def e_eq)
  have ab: "a \<le> b" by (simp add: b_eq)
  have b8: "8 * b = start + w + k"
    using total ab start by simp
  have "k < 8" by (simp add: k_def)
  then have blen: "b \<le> length bs"
    using inside b8 unfolding bs_def by linarith
  have lenL: "length L = 8 * length bs" by (simp add: L_def length_bitlist)
  define pre where "pre = take p (drop (8 * a) L)"
  define win where "win = take w (drop start L)"
  define post where "post = take k (drop (start + w) L)"
  have "start + w + k \<le> length L" using blen lenL b8 by simp
  then have len_post: "length post = k" and len_win: "length win = w"
    unfolding post_def win_def by simp_all
  have d1: "drop p (drop (8 * a) L) = drop start L"
    by (simp add: start add.commute)
  have d2: "drop (p + w) (drop (8 * a) L) = drop (start + w) L"
    by (simp add: start ac_simps)
  have slice: "bitlist (take (b - a) (drop a bs)) = pre @ win @ post"
    by (simp only: bitlist_take bitlist_drop total take3 d1 d2 pre_def win_def post_def
          L_def [symmetric])
  have loop: "ubits_loop bs [a..<b] 0 = Inr (bl_to_int (pre @ win @ post))"
    using ubits_loop_upt [OF blen ab, of 0] by (simp add: slice)
  have shifted: "(if e \<noteq> 0 then drop_bit (8 - e) (bl_to_int (pre @ win @ post))
                  else bl_to_int (pre @ win @ post)) = bl_to_int (pre @ win)"
  proof (cases "e = 0")
    case True
    then have "post = []" using len_post by (simp add: k_def)
    then show ?thesis using True by simp
  next
    case False
    then have "k = 8 - e" by (simp add: k_def)
    then show ?thesis using False bl_to_int_drop_low [of post k "pre @ win"] len_post by simp
  qed
  have "ubits self start w =
      (case ubits_loop bs [a..<b] 0 of Inl err \<Rightarrow> Inl err
       | Inr fld \<Rightarrow> Inr ((if e \<noteq> 0 then drop_bit (8 - e) fld else fld)
                         AND NOT (push_bit w (- 1))))"
    by (simp only: ubits_def Let_def bs_def a_def b_def e_def)
  also have "\<dots> = Inr (bl_to_int (pre @ win) mod 2 ^ w)"
    by (simp only: loop sum.case shifted and_not_shifted_minus_one)
  also have "\<dots> = Inr (bl_to_int win)"
    by (simp only: bl_to_int_mod_low [OF len_win])
  finally show ?thesis by (simp only: win_def L_def bs_def)
qed


lemma byte_bits_nth: "k < 8 \<Longrightarrow> byte_bits x ! k = bit x (7 - k)"
proof -
  assume "k < 8"
  then have "k \<in> {0, 1, 2, 3, 4, 5, 6, 7}" by auto
  then show ?thesis by (auto simp: byte_bits_def)
qed

lemma bitlist_nth:
  "k < 8 * length bs \<Longrightarrow> bitlist bs ! k = bit (bs ! (k div 8)) (7 - k mod 8)"
proof (induction bs arbitrary: k)
  case Nil
  then show ?case by simp
next
  case (Cons x xs)
  show ?case
  proof (cases "k < 8")
    case True
    then show ?thesis
      by (simp add: bitlist_Cons nth_append length_byte_bits byte_bits_nth)
  next
    case False
    then have k: "k - 8 < 8 * length xs" and d: "k div 8 = Suc ((k - 8) div 8)"
      and m: "k mod 8 = (k - 8) mod 8"
      using Cons.prems by (simp_all add: le_div_geq le_mod_geq)
    show ?thesis using False Cons.IH [OF k]
      by (simp add: bitlist_Cons nth_append length_byte_bits d m)
  qed
qed

lemma bl_to_int_top:
  "bit (bl_to_int (t # rest)) (length rest) = t"
proof -
  define r where "r = bl_to_int rest"
  define n where "n = length rest"
  have r: "0 \<le> r" "r < 2 ^ n"
    using bl_to_int_bounds [of rest] by (simp_all add: r_def n_def)
  then have z: "r div 2 ^ n = 0" by simp
  have o: "(2 ^ n + r) div 2 ^ n = 1"
    using z div_add_self1 [of "(2::int) ^ n" r] by simp
  show ?thesis
    using z o by (simp add: bit_iff_odd r_def [symmetric] n_def [symmetric])
qed

text \<open>
  Claim C3. For a window of positive width inside the buffer, the signed extraction is
  the unsigned extraction when the top bit of the window (the buffer's bit at the start
  offset) is 0, and the unsigned extraction minus \<open>2 ^ w\<close> when it is 1. The
  eight-bit window \<open>10000000\<close> reads as 128 unsigned and as -128 signed.
\<close>

theorem sbits_twos_complement:
  assumes "0 < w" and "start + w \<le> bitlen self" and "bitlen self \<le> 8 * length (bits self)"
  shows "\<exists>u. ubits self start w = Inr u \<and>
             sbits self start w = Inr (if getbit self start then u - 2 ^ w else u)"
proof -
  define L where "L = bitlist (bits self)"
  have inside: "start + w \<le> 8 * length (bits self)" using assms by simp
  have lenL: "length L = 8 * length (bits self)" by (simp add: L_def length_bitlist)
  have sl: "start < length L" using assms lenL by simp
  obtain v where w: "w = Suc v" using assms(1) by (cases w) simp_all
  define rest where "rest = take v (drop (Suc start) L)"
  have win: "take w (drop start L) = L ! start # rest"
    using sl by (simp add: w rest_def Cons_nth_drop_Suc [symmetric])
  have lr: "length rest = v" using inside lenL by (simp add: rest_def w)
  define u where "u = bl_to_int (L ! start # rest)"
  have ub: "ubits self start w = Inr u"
    using ubits_reference [OF inside] by (simp add: L_def [symmetric] win u_def)
  have top: "getbit self start = L ! start"
    using sl lenL by (simp add: getbit_def L_def bitlist_nth)
  have "bit u v = L ! start"
    using bl_to_int_top [of "L ! start" rest] by (simp add: u_def lr)
  then have test: "(u AND push_bit (w - 1) 1 \<noteq> 0) = L ! start"
    by (simp add: w and_exp_eq_0_iff_not_bit)
  show ?thesis
    using ub test top by (auto simp: sbits_def w)
qed

theorem sbits_twos_complement_witness:
  "ubits \<lparr>bits = [0x80], bitlen = 8\<rparr> 0 8 = Inr 128 \<and>
   sbits \<lparr>bits = [0x80], bitlen = 8\<rparr> 0 8 = Inr (- 128)"
proof -
  have u: "ubits \<lparr>bits = [0x80], bitlen = 8\<rparr> 0 8 = Inr 128"
    by (simp add: ubits_def upt_rec take_bit_eq_mask [symmetric])
  have g: "getbit \<lparr>bits = [0x80], bitlen = 8\<rparr> 0"
    by (simp add: getbit_def)
  show ?thesis
    using sbits_twos_complement [of 8 0 "\<lparr>bits = [0x80], bitlen = 8\<rparr>"] u g by simp
qed

section \<open>The tables and the extension pass\<close>

lemma int_range_24: "0 < n \<Longrightarrow> n \<le> 24 \<Longrightarrow> n \<in> set (map int [1..<25])"
proof -
  assume "0 < n" "n \<le> 24"
  then have "nat n \<in> set [1..<25]" "int (nat n) = n" by auto
  then show ?thesis by (metis image_eqI list.set_map)
qed

lemma msgtype_cases:
  assumes "validate_msgtype v"
  shows "\<exists>n. v = IntV n \<and> n \<in> {1,2,3,4,5,6,7,8,9,10,11,12,13,14,15,16,17,18,19,20,21,22,24}"
proof -
  from assms obtain n where v: "v = IntV n" and b: "0 < n" "n \<le> 24" "n \<noteq> 23"
    by (cases v) (auto simp: validate_msgtype_def)
  from int_range_24 [OF b(1,2)] b(3) have
    "n \<in> {1,2,3,4,5,6,7,8,9,10,11,12,13,14,15,16,17,18,19,20,21,22,24}"
    by (simp add: upt_rec)
  with v show ?thesis by blast
qed

text \<open>
  Claim C10. A message type accepted by the validator of the first field (an integer
  above 0, at most 24 and different from 23) is an index of the 25 sub-tables of the
  master dispatch at which a table stands, not one of the two \<^verbatim>\<open>None\<close> entries.
\<close>

theorem master_dispatch_selects_table:
  assumes "validate_msgtype v"
  shows "\<exists>subtypes compute n sub.
           aivdm_decode ! 3 = Dispatch ''msgtype'' subtypes compute \<and> length subtypes = 25 \<and>
           compute v = IntV n \<and> py_index subtypes n = Inr (Some sub)"
proof -
  from assms obtain n where v: "v = IntV n"
    and n: "n \<in> {1,2,3,4,5,6,7,8,9,10,11,12,13,14,15,16,17,18,19,20,21,22,24}"
    using msgtype_cases by blast
  from n show ?thesis
    unfolding v aivdm_decode_def
    by (auto simp: py_index_def)
qed

theorem master_dispatch_selects_table_witness:
  "validate_msgtype (IntV 17) \<and>
   (\<exists>subtypes compute n sub.
      aivdm_decode ! 3 = Dispatch ''msgtype'' subtypes compute \<and> length subtypes = 25 \<and>
      compute (IntV 17) = IntV n \<and> py_index subtypes n = Inr (Some sub))"
proof -
  have h: "validate_msgtype (IntV 17)" by (simp add: validate_msgtype_def)
  from master_dispatch_selects_table [OF h] h show ?thesis by blast
qed


section \<open>Fragment reassembly\<close>

lemma py_str_less_single: "py_str_less [f] [e] = ((of_char f :: nat) < of_char e)"
  by simp





section \<open>The interpreter\<close>

lemma unpack_loop_break:
  "bitlen data \<le> off \<Longrightarrow>
   unpack_loop data insts (off, vals, val, cooked) = Inr (off, vals, val, cooked)"
  by (cases insts) simp_all

lemma unpack_loop_append:
  "unpack_loop data (pre @ post) fr =
     (case unpack_loop data pre fr of Inl e \<Rightarrow> Inl e | Inr fr' \<Rightarrow> unpack_loop data post fr')"
proof (induction pre arbitrary: fr)
  case Nil
  show ?case by simp
next
  case (Cons inst pre)
  obtain off vals val cooked where fr: "fr = (off, vals, val, cooked)"
    by (cases fr) auto
  show ?case
  proof (cases "bitlen data \<le> off")
    case True
    then show ?thesis by (simp add: fr unpack_loop_break)
  next
    case False
    then show ?thesis
      by (simp add: fr Cons.IH
          split: instruction.splits option.splits sum.splits pyvalue.splits prod.splits)
  qed
qed

text \<open>
  Claim C1, as amended. The interpreter returns the list of decoded records and nothing
  else. At a dispatch node reached at the offset \<open>off\<close> it unpacks the selected
  sub-table from \<open>off\<close>, appends that sub-table's records to its own, and goes on
  with the rest of its table from the same offset \<open>off\<close>: the cursor at which the
  recursive call ended (\<open>off'\<close> below) is not used. An instruction that follows a
  dispatch node is thus decoded at the offset at which the dispatch node was reached.
\<close>

theorem dispatch_keeps_offset:
  assumes "unpack_loop data pre (offset, values, None, []) = Inr (off, vals, val, cooked)"
    and "off < bitlen data"
    and "vals fieldname = Some v" and "compute v = IntV i"
    and "py_index subtypes i = Inr (Some sub)"
    and "unpack_loop data sub (off, vals, None, []) = Inr (off', vals', val', sub_cooked)"
  shows "aivdm_unpack data offset values (pre @ Dispatch fieldname subtypes compute # rest) =
     (case unpack_loop data rest (off, vals', val, cooked @ sub_cooked) of
        Inl e \<Rightarrow> Inl e
      | Inr (off'', vals'', val'', cooked'') \<Rightarrow> Inr cooked'')"
  using assms by (simp add: aivdm_unpack_def unpack_loop_append)

text \<open>
  On the three bytes 1, 2, 3 the field \<open>a\<close> reads 1 and selects the sub-table, whose
  field \<open>b\<close> reads the second byte; the field \<open>c\<close> after the dispatch reads the
  second byte again, not the third, where the sub-table ended.
\<close>

theorem dispatch_keeps_offset_counterexample:
  "aivdm_unpack three_bytes 0 no_values dispatch_then_field =
     Inr [(''a'', IntV 1, ''unsigned'', ''a'', None),
          (''b'', IntV 2, ''unsigned'', ''b'', None),
          (''c'', IntV 2, ''unsigned'', ''c'', None)] \<and>
   ubits three_bytes 8 8 = Inr 2 \<and> ubits three_bytes 16 8 = Inr 3"
  by (simp add: aivdm_unpack_def dispatch_then_field_def example_field_def bitfield_init_def
      three_bytes_def no_values_def field_value_def ubits_def upt_rec py_index_def
      take_bit_eq_mask [symmetric])


theorem dispatch_keeps_offset_witness:
  "unpack_loop three_bytes [example_field ''a'' 8] (0, no_values, None, []) =
     Inr (8, no_values(''a'' \<mapsto> IntV 1), Some (IntV 1),
          [(''a'', IntV 1, ''unsigned'', ''a'', None)]) \<and>
   aivdm_unpack three_bytes 0 no_values
     ([example_field ''a'' 8] @ Dispatch ''a'' [None, Some [example_field ''b'' 8]] id
        # [example_field ''c'' 8]) =
     Inr [(''a'', IntV 1, ''unsigned'', ''a'', None),
          (''b'', IntV 2, ''unsigned'', ''b'', None),
          (''c'', IntV 2, ''unsigned'', ''c'', None)]"
proof -
  note defs = example_field_def bitfield_init_def three_bytes_def field_value_def ubits_def
    upt_rec take_bit_eq_mask [symmetric]
  have h1: "unpack_loop three_bytes [example_field ''a'' 8] (0, no_values, None, []) =
     Inr (8, no_values(''a'' \<mapsto> IntV 1), Some (IntV 1),
          [(''a'', IntV 1, ''unsigned'', ''a'', None)])"
    by (simp add: defs)
  have h2: "8 < bitlen three_bytes" by (simp add: three_bytes_def)
  have h3: "(no_values(''a'' \<mapsto> IntV 1)) ''a'' = Some (IntV 1)" by simp
  have h4: "id (IntV 1) = IntV 1" by simp
  have h5: "py_index [None, Some [example_field ''b'' 8]] 1 = Inr (Some [example_field ''b'' 8])"
    by (simp add: py_index_def)
  have h6: "unpack_loop three_bytes [example_field ''b'' 8]
       (8, no_values(''a'' \<mapsto> IntV 1), None, []) =
     Inr (16, no_values(''a'' \<mapsto> IntV 1, ''b'' \<mapsto> IntV 2), Some (IntV 2),
          [(''b'', IntV 2, ''unsigned'', ''b'', None)])"
    by (simp add: defs)
  have h7: "unpack_loop three_bytes [example_field ''c'' 8]
       (8, no_values(''a'' \<mapsto> IntV 1, ''b'' \<mapsto> IntV 2), Some (IntV 1),
        [(''a'', IntV 1, ''unsigned'', ''a'', None)] @ [(''b'', IntV 2, ''unsigned'', ''b'', None)]) =
     Inr (16, no_values(''a'' \<mapsto> IntV 1, ''b'' \<mapsto> IntV 2, ''c'' \<mapsto> IntV 2), Some (IntV 2),
          [(''a'', IntV 1, ''unsigned'', ''a'', None), (''b'', IntV 2, ''unsigned'', ''b'', None),
           (''c'', IntV 2, ''unsigned'', ''c'', None)])"
    by (simp add: defs)
  show ?thesis
    using dispatch_keeps_offset [where compute = id and fieldname = "''a''" and v = "IntV 1"
        and vals = "no_values(''a'' \<mapsto> IntV 1)" and rest = "[example_field ''c'' 8]",
        OF h1 h2 h3 h4 h5 h6] h1
    by (simp only: h7 sum.case prod.case simp_thms)
qed

section \<open>Raw fields\<close>

text \<open>
  Claim C7. In a message of type 17 the raw field starts at bit 77. For the payload
  \<open>A00000000000P0\<close> the value of that field is a vector of length 7 whose bytes
  start with the byte that holds bit 72: its first bit is bit 72 of the buffer, which is
  set and belongs to the latitude, whereas bit 77 of the buffer is clear.
\<close>

lemma raw_view_bit:
  assumes "type f = ''raw''"
  shows "\<exists>view. field_value data off f val = Inr (Some (RawV view)) \<and>
           bitlen view = bitlen data - off \<and>
           (off div 8 + i div 8 < length (bits data) \<longrightarrow>
              getbit view i = getbit data (8 * (off div 8) + i))"
proof -
  have d: "(8 * (off div 8) + i) div 8 = off div 8 + i div 8" by simp
  have m: "(8 * (off div 8) + i) mod 8 = i mod 8" by simp
  show ?thesis
    using assms by (simp add: field_value_def BitVector_init_def getbit_def d m)
qed

theorem raw_tail_misaligned:
  "from_sixbit (BitVector_init None None) type17_payload = Inr type17_bits \<and>
   aivdm_unpack type17_bits 0 no_values aivdm_decode =
     Inr [(''msgtype'', IntV 17, ''unsigned'', ''Message Type'', None),
          (''repeat'', IntV 0, ''unsigned'', ''Repeat Indicator'', None),
          (''mmsi'', IntV 0, ''unsigned'', ''MMSI'', None),
          (''lon'', IntV 0, ''signed'', ''Longitude'', Some (Hook ''short_latlon_format'')),
          (''lat'', IntV 4, ''signed'', ''Latitude'', Some (Hook ''short_latlon_format'')),
          (''data'', RawV type17_raw, ''raw'', ''DGNSS data'', None)] \<and>
   getbit type17_raw 0 \<and> \<not> getbit type17_bits 77"
proof -
  have a: "from_sixbit (BitVector_init None None) type17_payload = Inr type17_bits"
    by (simp add: from_sixbit_def BitVector_init_def type17_payload_def type17_bits_def
        armor_value_def)
  have b: "aivdm_unpack type17_bits 0 no_values aivdm_decode =
     Inr [(''msgtype'', IntV 17, ''unsigned'', ''Message Type'', None),
          (''repeat'', IntV 0, ''unsigned'', ''Repeat Indicator'', None),
          (''mmsi'', IntV 0, ''unsigned'', ''MMSI'', None),
          (''lon'', IntV 0, ''signed'', ''Longitude'', Some (Hook ''short_latlon_format'')),
          (''lat'', IntV 4, ''signed'', ''Latitude'', Some (Hook ''short_latlon_format'')),
          (''data'', RawV type17_raw, ''raw'', ''DGNSS data'', None)]"
    by (simp add: aivdm_unpack_def aivdm_decode_def type17_def bitfield_init_def
        field_value_def ubits_def sbits_def upt_rec py_index_def validate_msgtype_def
        BitVector_init_def type17_bits_def type17_raw_def no_values_def
        take_bit_eq_mask [symmetric])
  have c: "getbit type17_raw 0" "\<not> getbit type17_bits 77"
    by (simp_all add: getbit_def type17_raw_def type17_bits_def)
  from a b c show ?thesis by blast
qed

section \<open>Six-bit armoring\<close>

lemma byte_bits_set:
  "r < 8 \<Longrightarrow> byte_bits (b OR push_bit (7 - r) 1) = (byte_bits b)[r := True]"
proof -
  assume "r < 8"
  then have "r \<in> {0, 1, 2, 3, 4, 5, 6, 7}" by auto
  then show ?thesis
    by (auto simp: byte_bits_def bit_simps)
qed

lemma byte_bits_set_exp:
  "r < 8 \<Longrightarrow> byte_bits (b OR 2 ^ (7 - r)) = (byte_bits b)[r := True]"
  using byte_bits_set [of r b] by simp

lemma bitlist_update:
  "k < length bs \<Longrightarrow> r < 8 \<Longrightarrow>
   bitlist (bs[k := bs ! k OR push_bit (7 - r) 1]) = (bitlist bs)[8 * k + r := True]"
proof (induction bs arbitrary: k)
  case Nil
  then show ?case by simp
next
  case (Cons x xs)
  show ?case
  proof (cases k)
    case 0
    then show ?thesis using Cons.prems
      by (simp add: bitlist_Cons byte_bits_set_exp list_update_append length_byte_bits)
  next
    case (Suc k')
    then show ?thesis using Cons.prems Cons.IH [of k']
      by (simp add: bitlist_Cons list_update_append length_byte_bits)
  qed
qed


lemma test_bit: "(drop_bit i (ch::int) AND 1 \<noteq> 0) = bit ch i"
  by (simp add: bit_iff_odd_drop_bit and_one_eq mod_2_eq_odd)

lemma sixbit_bits_append:
  assumes "bitlist (bits self) = P @ replicate z False" and "length P = bitlen self"
    and "length js \<le> z"
  shows "\<exists>bv. sixbit_bits self ch js = Inr bv \<and>
           bitlist (bits bv) = P @ map (bit ch) js @ replicate (z - length js) False \<and>
           bitlen bv = bitlen self + length js \<and> length (bits bv) = length (bits self)"
  using assms
proof (induction js arbitrary: self P z)
  case Nil
  then show ?case by simp
next
  case (Cons j js)
  from Cons.prems obtain z' where z: "z = Suc z'" by (cases z) auto
  have len8: "length (bitlist (bits self)) = 8 * length (bits self)"
    by (rule length_bitlist)
  then have pos: "bitlen self < 8 * length (bits self)"
    using Cons.prems z by simp
  then have k: "bitlen self div 8 < length (bits self)" by simp
  define self' where "self' = (if bit ch j
      then self\<lparr>bits := (bits self)[bitlen self div 8 :=
                 bits self ! (bitlen self div 8) OR push_bit (7 - bitlen self mod 8) 1],
               bitlen := bitlen self + 1\<rparr>
      else self\<lparr>bitlen := bitlen self + 1\<rparr>)"
  have step: "sixbit_bits self ch (j # js) = sixbit_bits self' ch js"
    using k by (simp add: self'_def test_bit del: push_bit_of_1)
  have upd: "(P @ replicate z False)[bitlen self := True] = (P @ [True]) @ replicate z' False"
    using Cons.prems(2) by (simp add: z list_update_append)
  have idx: "8 * (bitlen self div 8) + bitlen self mod 8 = bitlen self" by simp
  have bl: "bitlist (bits self') = (P @ [bit ch j]) @ replicate z' False"
  proof (cases "bit ch j")
    case True
    have "bitlist (bits self') = (bitlist (bits self))[bitlen self := True]"
      using True bitlist_update [OF k, of "bitlen self mod 8"] by (simp add: self'_def idx)
    then show ?thesis using True upd Cons.prems(1) by simp
  next
    case False
    then show ?thesis using Cons.prems(1) by (simp add: self'_def z replicate_app_Cons_same)
  qed
  have l: "length (P @ [bit ch j]) = bitlen self'" using Cons.prems(2) by (simp add: self'_def)
  have zz: "length js \<le> z'" using Cons.prems(3) z by simp
  from Cons.IH [OF bl l zz] obtain bv where
    bv: "sixbit_bits self' ch js = Inr bv"
      "bitlist (bits bv) = (P @ [bit ch j]) @ map (bit ch) js @ replicate (z' - length js) False"
      "bitlen bv = bitlen self' + length js" "length (bits bv) = length (bits self')"
    by blast
  show ?case
    using bv step by (simp add: self'_def z)
qed


lemma sixbit_chars_append:
  assumes "bitlist (bits self) = P @ replicate z False" and "length P = bitlen self"
    and "6 * length data \<le> z"
  shows "\<exists>bv. sixbit_chars self data = Inr bv \<and>
           bitlist (bits bv) =
             P @ concat (map sixbit_code data) @ replicate (z - 6 * length data) False \<and>
           bitlen bv = bitlen self + 6 * length data \<and>
           length (bits bv) = length (bits self)"
  using assms
proof (induction data arbitrary: self P z)
  case Nil
  then show ?case by simp
next
  case (Cons c data)
  have six: "length [5, 4, 3, 2, 1, 0 :: nat] \<le> z" using Cons.prems(3) by simp
  from sixbit_bits_append [OF Cons.prems(1,2) six, of "armor_value c"]
  obtain b1 where b1: "sixbit_bits self (armor_value c) [5, 4, 3, 2, 1, 0] = Inr b1"
    and raw: "bitlist (bits b1) = P @ map (bit (armor_value c)) [5, 4, 3, 2, 1, 0]
        @ replicate (z - length [5, 4, 3, 2, 1, 0 :: nat]) False"
      "bitlen b1 = bitlen self + length [5, 4, 3, 2, 1, 0 :: nat]"
      "length (bits b1) = length (bits self)"
    by blast
  have b1_bits: "bitlist (bits b1) = (P @ sixbit_code c) @ replicate (z - 6) False"
    using raw(1) by (simp add: sixbit_code_def)
  have b1_len: "bitlen b1 = bitlen self + 6" using raw(2) by simp
  note b1_bytes = raw(3)
  have l: "length (P @ sixbit_code c) = bitlen b1"
    using Cons.prems(2) b1_len by (simp add: sixbit_code_def)
  have zz: "6 * length data \<le> z - 6" using Cons.prems(3) by simp
  from Cons.IH [OF b1_bits l zz] obtain bv where
    bv: "sixbit_chars b1 data = Inr bv"
      "bitlist (bits bv) = (P @ sixbit_code c) @ concat (map sixbit_code data)
          @ replicate (z - 6 - 6 * length data) False"
      "bitlen bv = bitlen b1 + 6 * length data" "length (bits bv) = length (bits b1)"
    by blast
  have "sixbit_chars self (c # data) = Inr bv" using b1 bv(1) by simp
  moreover have "bitlist (bits bv) =
      P @ concat (map sixbit_code (c # data)) @ replicate (z - 6 * length (c # data)) False"
    using bv(2) by simp
  moreover have "bitlen bv = bitlen self + 6 * length (c # data)"
    using bv(3) b1_len by simp
  moreover have "length (bits bv) = length (bits self)"
    using bv(4) b1_bytes by simp
  ultimately show ?case by blast
qed

lemma byte_bits_zero: "byte_bits 0 = replicate 8 False"
  by (simp add: byte_bits_def eval_nat_numeral)

lemma bitlist_zeros: "bitlist (replicate n 0) = replicate (8 * n) False"
proof (induction n)
  case 0
  show ?case by (simp add: bitlist_Nil)
next
  case (Suc n)
  have "bitlist (replicate (Suc n) 0) = replicate 8 False @ replicate (8 * n) False"
    using Suc by (simp add: bitlist_Cons byte_bits_zero)
  also have "\<dots> = replicate (8 + 8 * n) False"
    by (simp only: replicate_add)
  finally show ?case by simp
qed

text \<open>
  Claim C5, as amended. Building a bit buffer from armored text maps each character
  \<open>c\<close> to \<open>ord c - 48\<close>, less 8 when that exceeds 40, and appends six bits of
  that integer, most significant first. It never fails: on every text the fresh vector
  ends with six bits per character and one byte per character, and its bits are the codes
  of the characters in order. A character outside the range 48..119 is treated like any
  other (the bits 5..0 of its integer, in two's complement when it is negative).
\<close>

theorem from_sixbit_never_fails:
  "\<exists>bv. from_sixbit (BitVector_init None None) data = Inr bv \<and>
        bitlen bv = 6 * length data \<and> length (bits bv) = length data \<and>
        take (bitlen bv) (bitlist (bits bv)) = concat (map sixbit_code data)"
proof -
  define self where "self = (BitVector_init None None)\<lparr>bits := replicate (length data) 0\<rparr>"
  have a: "bitlist (bits self) = [] @ replicate (8 * length data) False"
    by (simp add: self_def bitlist_zeros)
  have b: "length ([] :: bool list) = bitlen self"
    by (simp add: self_def BitVector_init_def)
  have c: "6 * length data \<le> 8 * length data" by simp
  from sixbit_chars_append [OF a b c] obtain bv where
    bv: "sixbit_chars self data = Inr bv"
      "bitlist (bits bv) = [] @ concat (map sixbit_code data)
          @ replicate (8 * length data - 6 * length data) False"
      "bitlen bv = bitlen self + 6 * length data" "length (bits bv) = length (bits self)"
    by blast
  have len: "length (concat (map sixbit_code data)) = 6 * length data"
    by (induction data) (simp_all add: sixbit_code_def)
  have "from_sixbit (BitVector_init None None) data = Inr bv"
    using bv(1) by (simp add: from_sixbit_def self_def BitVector_init_def)
  moreover have "bitlen bv = 6 * length data"
    using bv(3) by (simp add: self_def BitVector_init_def)
  moreover have "length (bits bv) = length data"
    using bv(4) by (simp add: self_def)
  moreover have "take (6 * length data) (bitlist (bits bv)) = concat (map sixbit_code data)"
    using bv(2) len by simp
  ultimately show ?thesis by simp
qed

lemma bits_of_A0w: "take 18 (bitlist [68, 15, 192]) =
     [False, True, False, False, False, True, False, False, False, False, False, False,
      True, True, True, True, True, True]"
  by (simp add: bitlist_def byte_bits_def)

theorem from_sixbit_never_fails_witness:
  "from_sixbit (BitVector_init None None) ''A0w'' = Inr \<lparr>bits = [68, 15, 192], bitlen = 18\<rparr> \<and>
   concat (map sixbit_code ''A0w'') =
     [False, True, False, False, False, True, False, False, False, False, False, False,
      True, True, True, True, True, True]"
proof -
  have e: "from_sixbit (BitVector_init None None) ''A0w'' = Inr \<lparr>bits = [68, 15, 192], bitlen = 18\<rparr>"
    by (simp add: from_sixbit_def BitVector_init_def armor_value_def)
  from from_sixbit_never_fails [of "''A0w''"] obtain bv where
    bv: "from_sixbit (BitVector_init None None) ''A0w'' = Inr bv"
      "take (bitlen bv) (bitlist (bits bv)) = concat (map sixbit_code ''A0w'')"
    by blast
  have "Inr bv = (Inr \<lparr>bits = [68, 15, 192], bitlen = 18\<rparr> :: py_error + BitVector)"
    by (rule trans [OF sym [OF bv(1)] e])
  then have "bv = \<lparr>bits = [68, 15, 192], bitlen = 18\<rparr>" by (simp only: sum.inject)
  with bv(2) have "take 18 (bitlist [68, 15, 192]) = concat (map sixbit_code ''A0w'')" by simp
  with bits_of_A0w have "concat (map sixbit_code ''A0w'') =
     [False, True, False, False, False, True, False, False, False, False, False, False,
      True, True, True, True, True, True]" by (simp only:)
  with e show ?thesis by (rule conjI)
qed

text \<open>
  The characters \<open>x\<close> (code 120) and space (code 32) lie outside the armor range
  and are accepted: the first appends six zero bits, the second \<open>110000\<close>.
\<close>

theorem from_sixbit_out_of_range_counterexample:
  "from_sixbit (BitVector_init None None) [CHR ''x''] = Inr \<lparr>bits = [0], bitlen = 6\<rparr> \<and>
   of_char (CHR ''x'') = (120 :: nat) \<and>
   from_sixbit (BitVector_init None None) [CHR '' ''] = Inr \<lparr>bits = [192], bitlen = 6\<rparr> \<and>
   of_char (CHR '' '') = (32 :: nat)"
proof -
  have "from_sixbit (BitVector_init None None) [CHR ''x''] = Inr \<lparr>bits = [0], bitlen = 6\<rparr>"
    by (simp add: from_sixbit_def BitVector_init_def armor_value_def)
  moreover have "from_sixbit (BitVector_init None None) [CHR '' ''] = Inr \<lparr>bits = [192], bitlen = 6\<rparr>"
    by (simp add: from_sixbit_def BitVector_init_def armor_value_def)
  moreover have "of_char (CHR ''x'') = (120 :: nat)" "of_char (CHR '' '') = (32 :: nat)"
    by simp_all
  ultimately show ?thesis by blast
qed

section \<open>Validation errors\<close>














section \<open>Truncated buffers\<close>

text \<open>
  Claim C2. The guard of the walk compares the offset at which an instruction starts with
  the bit-length, not the end of its window. The payload \<open>5000000\<close> (type 5, 42
  bits in seven bytes) reaches the field \<open>imo_id\<close> at bit 40: its window of 30 bits
  runs beyond the seven bytes and the unpacking ends with IndexError. The payload
  \<open>10000000\<close> (type 1, 48 bits in eight bytes) yields the field \<open>turn\<close>, whose
  window is the bits 42 to 49.
\<close>

theorem short_message_window_past_end:
  "from_sixbit (BitVector_init None None) short_type5_payload = Inr short_type5_bits \<and>
   aivdm_unpack short_type5_bits 0 no_values aivdm_decode = Inl IndexError \<and>
   from_sixbit (BitVector_init None None) short_type1_payload = Inr short_type1_bits \<and>
   aivdm_unpack short_type1_bits 0 no_values aivdm_decode = Inr short_type1_record \<and>
   bitlen short_type1_bits = 48"
proof -
  note armor = from_sixbit_def BitVector_init_def armor_value_def
  note walk = aivdm_unpack_def aivdm_decode_def bitfield_init_def field_value_def ubits_def
    sbits_def upt_rec py_index_def validate_msgtype_def no_values_def
    take_bit_eq_mask [symmetric]
  have a: "from_sixbit (BitVector_init None None) short_type5_payload = Inr short_type5_bits"
    by (simp add: armor short_type5_payload_def short_type5_bits_def)
  have b: "aivdm_unpack short_type5_bits 0 no_values aivdm_decode = Inl IndexError"
    by (simp add: walk type5_def short_type5_bits_def)
  have c: "from_sixbit (BitVector_init None None) short_type1_payload = Inr short_type1_bits"
    by (simp add: armor short_type1_payload_def short_type1_bits_def)
  have d: "aivdm_unpack short_type1_bits 0 no_values aivdm_decode = Inr short_type1_record"
    by (simp add: walk cnb_def short_type1_bits_def short_type1_record_def)
  have e: "bitlen short_type1_bits = 48" by (simp add: short_type1_bits_def)
  from a b c d e show ?thesis by blast
qed

section \<open>Field extensions\<close>





text \<open>
  The one table that repeats a text name is that of type 21. Its first field has a data
  type that none of the four branches matches, so the walk over it ends at once, the
  local \<^verbatim>\<open>value\<close> being unbound: no record with a repeated text name is built from
  the shipped tables.
\<close>

lemma type21_unbound_value:
  "off < bitlen data \<Longrightarrow> aivdm_unpack data off vals type21 = Inl UnboundLocalError"
  by (simp add: aivdm_unpack_def type21_def bitfield_init_def field_value_def)


end
